theory Spec2Isabelle
  imports Complex_Main
begin

section \<open>Configuration\<close>

text \<open>
  The \<open>config\<close> object of \<open>server/server.js\<close>. Its only field that is not a literal is
  \<open>activeMode\<close>, read from the process environment (\<open>process.env.ACTIVE_MODE || 'test'\<close>):
  the environment variable is the parameter of \<open>config\<close>, \<open>None\<close> when it is not set.
  A JavaScript number is modelled as an \<open>int\<close>: every number that this server reads from
  its clock or compares (milliseconds, satoshis) is an integer.
\<close>

record config_t =
  testMint :: string
  mainMint :: string
  activeMode :: string
  dbPath :: string
  puzzleReward :: int
  rateLimitSeconds :: int

definition config :: "string option \<Rightarrow> config_t" where
  "config ACTIVE_MODE =
     \<lparr> testMint = ''https://nofees.testnut.cashu.space'',
       mainMint = ''https://mint.minibits.cash/Bitcoin'',
       activeMode = (case ACTIVE_MODE of None \<Rightarrow> ''test''
                     | Some s \<Rightarrow> if s = [] then ''test'' else s),
       dbPath = ''/app/data/wallet.db'',
       puzzleReward = 10,
       rateLimitSeconds = 5 \<rparr>"

definition activeMint :: "string option \<Rightarrow> string" where
  "activeMint env =
     (if activeMode (config env) = ''main'' then mainMint (config env) else testMint (config env))"

section \<open>Rendering numbers in a template literal\<close>

definition digit_char :: "nat \<Rightarrow> char" where
  "digit_char d = char_of (48 + d)"

function nat_to_string :: "nat \<Rightarrow> string" where
  "nat_to_string n =
     (if n < 10 then [digit_char n] else nat_to_string (n div 10) @ [digit_char (n mod 10)])"
  by pat_completeness auto
termination
  by (relation "measure (\<lambda>n. n)") auto

declare nat_to_string.simps [simp del]

definition number_to_string :: "int \<Rightarrow> string" where
  "number_to_string i =
     (if i < 0 then CHR ''-'' # nat_to_string (nat (- i)) else nat_to_string (nat i))"

section \<open>The rate limiter\<close>

text \<open>
  \<open>rateLimitMap\<close> is a \<open>Map\<close> from the client's address to the clock reading of its last
  allowed attempt. \<open>checkRateLimit\<close> reads the clock once (\<open>Date.now()\<close>): the reading is
  the parameter \<open>now\<close>, in milliseconds. The function returns its result object and the map
  as it leaves it. The test \<open>!lastSolve\<close> holds when the map has no entry
  (\<open>undefined\<close>) and also when the stored number is \<open>0\<close>.
\<close>

record rate_limit_result =
  allowed :: bool
  message :: "string option"

definition rateLimitMs :: "string option \<Rightarrow> int" where
  "rateLimitMs env = rateLimitSeconds (config env) * 1000"

definition secondsRemaining :: "string option \<Rightarrow> int \<Rightarrow> int" where
  "secondsRemaining env timeSinceLastSolve =
     \<lceil>real_of_int (rateLimitMs env - timeSinceLastSolve) / 1000\<rceil>"

text \<open>
  The message of a denial is a template literal. It begins with the two characters
  \<open>U+00E2\<close> and \<open>U+00B3\<close> that the source file holds before the words.
\<close>

definition message_prefix :: string where
  "message_prefix = [CHR 0xE2, CHR 0xB3]"

definition rateLimitMessage :: "string option \<Rightarrow> int \<Rightarrow> string" where
  "rateLimitMessage env secs =
     message_prefix @ '' Slow down! You can only solve 1 puzzle every ''
       @ number_to_string (rateLimitSeconds (config env))
       @ '' seconds. Try again in '' @ number_to_string secs
       @ '' second'' @ (if secs > 1 then ''s'' else '''') @ ''.''"

definition checkRateLimit ::
  "string option \<Rightarrow> int \<Rightarrow> 'k \<Rightarrow> ('k \<rightharpoonup> int) \<Rightarrow> rate_limit_result \<times> ('k \<rightharpoonup> int)" where
  "checkRateLimit env now ip rateLimitMap =
     (case rateLimitMap ip of
        None \<Rightarrow> (\<lparr>allowed = True, message = None\<rparr>, rateLimitMap(ip \<mapsto> now))
      | Some lastSolve \<Rightarrow>
          if lastSolve = 0 then (\<lparr>allowed = True, message = None\<rparr>, rateLimitMap(ip \<mapsto> now))
          else
            let timeSinceLastSolve = now - lastSolve in
            if timeSinceLastSolve < rateLimitMs env then
              (\<lparr>allowed = False,
                message = Some (rateLimitMessage env (secondsRemaining env timeSinceLastSolve))\<rparr>,
               rateLimitMap)
            else (\<lparr>allowed = True, message = None\<rparr>, rateLimitMap(ip \<mapsto> now)))"

text \<open>
  The operation in the words of the specification, \<open>checkAndRecord\<close>: without an entry
  record the clock reading and allow; otherwise allow and record when the elapsed time
  has reached the cooldown, and deny with the seconds remaining when it has not. The
  result is the flag and, on a denial, the seconds remaining.
\<close>

definition spec_checkAndRecord ::
  "int \<Rightarrow> int \<Rightarrow> 'k \<Rightarrow> ('k \<rightharpoonup> int) \<Rightarrow> (bool \<times> int option) \<times> ('k \<rightharpoonup> int)" where
  "spec_checkAndRecord cooldown now clientKey m =
     (case m clientKey of
        None \<Rightarrow> ((True, None), m(clientKey \<mapsto> now))
      | Some lastEntry \<Rightarrow>
          let elapsed = now - lastEntry in
          if elapsed \<ge> cooldown then ((True, None), m(clientKey \<mapsto> now))
          else ((False, Some \<lceil>real_of_int (cooldown - elapsed) / 1000\<rceil>), m))"

text \<open>
  The hourly clean-up (the callback given to \<open>setInterval\<close>): it reads the clock once and
  deletes every entry older than ten times the rate limit. Deleting the entry under the
  iterator is safe in a \<open>Map\<close>, so the loop is a filter of the entries.
\<close>

definition cleanup :: "string option \<Rightarrow> int \<Rightarrow> ('k \<rightharpoonup> int) \<Rightarrow> ('k \<rightharpoonup> int)" where
  "cleanup env now rateLimitMap =
     (\<lambda>ip. case rateLimitMap ip of
             None \<Rightarrow> None
           | Some lastSolve \<Rightarrow>
               if now - lastSolve > rateLimitMs env * 10 then None else Some lastSolve)"

text \<open>
  The same clean-up as the loop that the source writes, over the entries
  \<open>[ip, lastSolve]\<close> of the map in the order of their insertion, each key once.
\<close>

fun cleanup_loop ::
  "string option \<Rightarrow> int \<Rightarrow> ('k \<times> int) list \<Rightarrow> ('k \<rightharpoonup> int) \<Rightarrow> ('k \<rightharpoonup> int)" where
  "cleanup_loop env now [] rateLimitMap = rateLimitMap"
| "cleanup_loop env now ((ip, lastSolve) # entries) rateLimitMap =
     cleanup_loop env now entries
       (if now - lastSolve > rateLimitMs env * 10 then rateLimitMap(ip := None) else rateLimitMap)"

text \<open>
  The maps that the server reaches: it starts with the empty map, and the map changes
  only in \<open>checkRateLimit\<close>, which stores the reading of the system clock, and in the
  clean-up. The system clock counts the milliseconds since the first instant of 1970
  and does not read \<open>0\<close> while the server runs.
\<close>

inductive reachable :: "string option \<Rightarrow> ('k \<rightharpoonup> int) \<Rightarrow> bool" for env where
  start: "reachable env Map.empty"
| check: "reachable env m \<Longrightarrow> now \<noteq> 0 \<Longrightarrow> reachable env (snd (checkRateLimit env now k m))"
| sweep: "reachable env m \<Longrightarrow> reachable env (cleanup env now m)"

code_pred reachable .

section \<open>JSON values\<close>

text \<open>
  A value parsed from a request body or written into a response body. The keys of an
  object are distinct. A field that an object does not have, and any field of a value
  that is not an object, reads as \<open>undefined\<close>: \<open>None\<close> in \<open>get_field\<close>. Strings are
  lists of 8-bit characters, numbers are integers.
\<close>

datatype json =
    JNull
  | JBool bool
  | JNum int
  | JStr string
  | JArr "json list"
  | JObj "(string \<times> json) list"

definition get_field :: "string \<Rightarrow> json \<Rightarrow> json option" where
  "get_field name v = (case v of JObj kvs \<Rightarrow> map_of kvs name | _ \<Rightarrow> None)"

text \<open>The operator \<open>!\<close> on a value read from a body: true on the falsy values.\<close>

fun falsy :: "json option \<Rightarrow> bool" where
  "falsy None = True"
| "falsy (Some JNull) = True"
| "falsy (Some (JBool b)) = (\<not> b)"
| "falsy (Some (JNum n)) = (n = 0)"
| "falsy (Some (JStr s)) = (s = [])"
| "falsy (Some (JArr xs)) = False"
| "falsy (Some (JObj kvs)) = False"

fun isArray :: "json option \<Rightarrow> bool" where
  "isArray (Some (JArr xs)) = True"
| "isArray _ = False"

subsection \<open>\<open>JSON.stringify\<close>\<close>

text \<open>
  ECMAScript's \<open>QuoteJSONString\<close>: the quotation mark and the backslash are escaped with a
  backslash, the control characters below \<open>0x20\<close> by their short escape when they have
  one and by \<open>\\u00XX\<close> in lower-case hexadecimal otherwise. Integers print in decimal,
  as JavaScript prints the integers of magnitude below \<open>10^21\<close>; the exponent form of
  the larger ones, numbers with a fraction and code units above \<open>0xFF\<close> are not in the
  model. The validation compares a serialisation with that of an array of strings, which
  does not depend on how a number prints beyond its first character not being a
  quotation mark.
\<close>

definition backslash :: char where
  "backslash = CHR 0x5C"

definition dquote :: char where
  "dquote = CHR 0x22"

definition hex_char :: "nat \<Rightarrow> char" where
  "hex_char d = (if d < 10 then char_of (48 + d) else char_of (87 + d))"

definition quote_char :: "char \<Rightarrow> string" where
  "quote_char c =
     (if c = dquote then [backslash, dquote]
      else if c = backslash then [backslash, backslash]
      else if c = CHR 0x08 then [backslash, CHR ''b'']
      else if c = CHR 0x09 then [backslash, CHR ''t'']
      else if c = CHR 0x0A then [backslash, CHR ''n'']
      else if c = CHR 0x0C then [backslash, CHR ''f'']
      else if c = CHR 0x0D then [backslash, CHR ''r'']
      else if (of_char c :: nat) < 32 then
        [backslash, CHR ''u'', CHR ''0'', CHR ''0'',
         hex_char (of_char c div 16), hex_char (of_char c mod 16)]
      else [c])"

definition QuoteJSONString :: "string \<Rightarrow> string" where
  "QuoteJSONString s = dquote # concat (map quote_char s) @ [dquote]"

fun comma_join :: "string list \<Rightarrow> string" where
  "comma_join [] = []"
| "comma_join (x # xs) = x @ concat (map (\<lambda>y. CHR '','' # y) xs)"

fun JSON_stringify :: "json \<Rightarrow> string" where
  "JSON_stringify JNull = ''null''"
| "JSON_stringify (JBool b) = (if b then ''true'' else ''false'')"
| "JSON_stringify (JNum n) = number_to_string n"
| "JSON_stringify (JStr s) = QuoteJSONString s"
| "JSON_stringify (JArr xs) = CHR ''['' # comma_join (map JSON_stringify xs) @ '']''"
| "JSON_stringify (JObj kvs) =
     CHR ''{'' # comma_join (map (\<lambda>kv. QuoteJSONString (fst kv) @ CHR '':'' # JSON_stringify (snd kv)) kvs)
       @ ''}''"

section \<open>Puzzles and the validation of a solution\<close>

text \<open>
  A record of \<open>easy_puzzles.json\<close>. The data set itself is a parameter (\<open>puzzlesData\<close>) of
  the handlers that read it.
\<close>

record puzzle =
  puzzle_id :: string
  fen :: string
  solution :: "string list"
  rating :: int
  themes :: "string list"

text \<open>\<open>Array.prototype.filter\<close> with a callback that also takes the index.\<close>

fun filter_indexed :: "('a \<Rightarrow> nat \<Rightarrow> bool) \<Rightarrow> nat \<Rightarrow> 'a list \<Rightarrow> 'a list" where
  "filter_indexed p i [] = []"
| "filter_indexed p i (x # xs) =
     (if p x i then x # filter_indexed p (Suc i) xs else filter_indexed p (Suc i) xs)"

definition userMovesInSolution :: "puzzle \<Rightarrow> string list" where
  "userMovesInSolution p = filter_indexed (\<lambda>_ index. index mod 2 = 1) 0 (solution p)"

definition isCorrect :: "json \<Rightarrow> puzzle \<Rightarrow> bool" where
  "isCorrect moves p =
     (JSON_stringify moves = JSON_stringify (JArr (map JStr (userMovesInSolution p))))"

text \<open>
  The expected user sequence in the words of the specification: the elements of the
  canonical solution at the odd positions, counted from 0, in their order.
\<close>

definition spec_expected_sequence :: "string list \<Rightarrow> string list" where
  "spec_expected_sequence sol = map (\<lambda>i. sol ! i) (filter odd [0..<length sol])"

section \<open>The wallet collaborator\<close>

text \<open>
  The wallet manager of \<open>coco-cashu-core\<close>, the token encoder and the QR code renderer
  are libraries: their operations are parameters of the model, over a wallet state
  \<open>'w\<close> that the server never inspects. A call that throws is a result \<open>Inl\<close> with the
  message of the error; a call that returns is \<open>Inr\<close>. \<open>getBalances\<close> is a query: it
  reads the wallet and leaves it as it is. Every other wallet operation also yields the
  wallet as it leaves it, whether it returns or throws.
\<close>

record mint_quote =
  quote :: string
  request :: string

record 'w collaborators =
  getBalances :: "'w \<Rightarrow> string + (string \<times> int) list"
  send :: "string \<Rightarrow> int \<Rightarrow> 'w \<Rightarrow> (string + json) \<times> 'w"
  receive :: "json \<Rightarrow> 'w \<Rightarrow> (string + unit) \<times> 'w"
  createMintQuote :: "string \<Rightarrow> json \<Rightarrow> 'w \<Rightarrow> (string + mint_quote) \<times> 'w"
  redeemMintQuote :: "string \<Rightarrow> string \<Rightarrow> 'w \<Rightarrow> (string + unit) \<times> 'w"
  getEncodedToken :: "json \<Rightarrow> string + string"
  toDataURL :: "string \<Rightarrow> string + string"

text \<open>
  The state that the request handlers share: the rate-limit map, the wallet, and a log
  of the wallet operations invoked so far, each with its outcome. The log is not in the
  source; it records which operations ran, so that a theorem can say that one did not.
  A handler is a function from the state before the request to the response and the
  state after it: it runs from its first statement to its response without another
  request in between.
\<close>

datatype wallet_call =
    GetBalances
  | Send string int
  | Receive json
  | CreateMintQuote string json
  | RedeemMintQuote string string

datatype outcome = Returned | Threw string

fun outcome_of :: "string + 'a \<Rightarrow> outcome" where
  "outcome_of (Inl err) = Threw err"
| "outcome_of (Inr v) = Returned"

record 'w world =
  rateLimitMap :: "string option \<rightharpoonup> int"
  wallet :: 'w
  calls :: "(wallet_call \<times> outcome) list"

definition logged :: "wallet_call \<Rightarrow> string + 'a \<Rightarrow> 'w \<Rightarrow> 'w world \<Rightarrow> 'w world" where
  "logged c r w' s = s\<lparr>wallet := w', calls := calls s @ [(c, outcome_of r)]\<rparr>"

definition call_getBalances ::
  "'w collaborators \<Rightarrow> 'w world \<Rightarrow> (string + (string \<times> int) list) \<times> 'w world" where
  "call_getBalances M s =
     (let r = getBalances M (wallet s) in (r, logged GetBalances r (wallet s) s))"

definition call_send ::
  "'w collaborators \<Rightarrow> string \<Rightarrow> int \<Rightarrow> 'w world \<Rightarrow> (string + json) \<times> 'w world" where
  "call_send M mint amount s =
     (case send M mint amount (wallet s) of (r, w') \<Rightarrow> (r, logged (Send mint amount) r w' s))"

definition call_receive ::
  "'w collaborators \<Rightarrow> json \<Rightarrow> 'w world \<Rightarrow> (string + unit) \<times> 'w world" where
  "call_receive M token s =
     (case receive M token (wallet s) of (r, w') \<Rightarrow> (r, logged (Receive token) r w' s))"

definition call_createMintQuote ::
  "'w collaborators \<Rightarrow> string \<Rightarrow> json \<Rightarrow> 'w world \<Rightarrow> (string + mint_quote) \<times> 'w world" where
  "call_createMintQuote M mint amount s =
     (case createMintQuote M mint amount (wallet s) of
        (r, w') \<Rightarrow> (r, logged (CreateMintQuote mint amount) r w' s))"

definition call_redeemMintQuote ::
  "'w collaborators \<Rightarrow> string \<Rightarrow> string \<Rightarrow> 'w world \<Rightarrow> (string + unit) \<times> 'w world" where
  "call_redeemMintQuote M mint quoteId s =
     (case redeemMintQuote M mint quoteId (wallet s) of
        (r, w') \<Rightarrow> (r, logged (RedeemMintQuote mint quoteId) r w' s))"

text \<open>The wallet operations that a handler invoked, from the state before and after it.\<close>

definition new_calls :: "'w world \<Rightarrow> 'w world \<Rightarrow> (wallet_call \<times> outcome) list" where
  "new_calls s s' = drop (length (calls s)) (calls s')"

text \<open>Some wallet operation that the handler invoked threw an error with this message.\<close>

definition wallet_threw :: "'w world \<Rightarrow> 'w world \<Rightarrow> string \<Rightarrow> bool" where
  "wallet_threw s s' err = (Threw err \<in> set (map snd (new_calls s s')))"

section \<open>Requests and responses\<close>

record request =
  body :: json
  ip :: "string option"
  remoteAddress :: "string option"

record response =
  status :: nat
  res_body :: json

text \<open>\<open>res.json(v)\<close> answers with status 200, \<open>res.status(n).json(v)\<close> with status \<open>n\<close>.\<close>

definition res_json :: "json \<Rightarrow> response" where
  "res_json v = \<lparr>status = 200, res_body = v\<rparr>"

definition res_status_json :: "nat \<Rightarrow> json \<Rightarrow> response" where
  "res_status_json n v = \<lparr>status = n, res_body = v\<rparr>"

definition error_body :: "string \<Rightarrow> json" where
  "error_body msg = JObj [(''error'', JStr msg)]"

text \<open>\<open>balances[activeMint] || 0\<close>: an absent mint and a balance of \<open>0\<close> both give \<open>0\<close>.\<close>

definition balance_or_0 :: "(string \<times> int) list \<Rightarrow> string \<Rightarrow> int" where
  "balance_or_0 balances mint =
     (case map_of balances mint of None \<Rightarrow> 0 | Some b \<Rightarrow> if b = 0 then 0 else b)"

definition balances_json :: "(string \<times> int) list \<Rightarrow> json" where
  "balances_json balances = JObj (map (\<lambda>kv. (fst kv, JNum (snd kv))) balances)"

text \<open>\<open>req.ip || req.connection.remoteAddress\<close>\<close>

definition clientIp :: "request \<Rightarrow> string option" where
  "clientIp req =
     (case ip req of None \<Rightarrow> remoteAddress req
      | Some a \<Rightarrow> if a = [] then remoteAddress req else Some a)"

section \<open>The request handlers\<close>

text \<open>\<open>GET /api/balance\<close>\<close>

definition get_api_balance ::
  "string option \<Rightarrow> 'w collaborators \<Rightarrow> 'w world \<Rightarrow> response \<times> 'w world" where
  "get_api_balance env M s =
     (case call_getBalances M s of
        (Inl err, s1) \<Rightarrow> (res_status_json 500 (error_body err), s1)
      | (Inr balances, s1) \<Rightarrow>
          (res_json (JObj [(''balances'', balances_json balances),
                           (''activeMode'', JStr (activeMode (config env))),
                           (''activeMint'', JStr (activeMint env)),
                           (''total'', JNum (balance_or_0 balances (activeMint env)))]),
           s1))"

text \<open>\<open>POST /api/receive\<close>\<close>

definition post_api_receive ::
  "string option \<Rightarrow> 'w collaborators \<Rightarrow> request \<Rightarrow> 'w world \<Rightarrow> response \<times> 'w world" where
  "post_api_receive env M req s =
     (case get_field ''token'' (body req) of
        None \<Rightarrow> (res_status_json 400 (error_body ''Token is required''), s)
      | Some token \<Rightarrow>
          if falsy (Some token) then (res_status_json 400 (error_body ''Token is required''), s)
          else
            (case call_receive M token s of
               (Inl err, s1) \<Rightarrow> (res_status_json 500 (error_body err), s1)
             | (Inr u, s1) \<Rightarrow>
                 (case call_getBalances M s1 of
                    (Inl err, s2) \<Rightarrow> (res_status_json 500 (error_body err), s2)
                  | (Inr balances, s2) \<Rightarrow>
                      (res_json (JObj [(''success'', JBool True),
                                       (''balance'', JNum (balance_or_0 balances (activeMint env))),
                                       (''message'', JStr ''Tokens received successfully'')]),
                       s2))))"

text \<open>
  \<open>POST /api/donate\<close>. The comparison \<open>amount < 1\<close> converts a value that is not a number
  with the language's \<open>ToNumber\<close>, a parameter here (\<open>None\<close> is \<open>NaN\<close>, below which and
  above which nothing is).
\<close>

definition less_than_1 :: "(json \<Rightarrow> int option) \<Rightarrow> json \<Rightarrow> bool" where
  "less_than_1 ToNumber v =
     (case v of JNum n \<Rightarrow> n < 1
      | _ \<Rightarrow> (case ToNumber v of None \<Rightarrow> False | Some n \<Rightarrow> n < 1))"

definition post_api_donate ::
  "string option \<Rightarrow> (json \<Rightarrow> int option) \<Rightarrow> 'w collaborators \<Rightarrow> request \<Rightarrow> 'w world
     \<Rightarrow> response \<times> 'w world" where
  "post_api_donate env ToNumber M req s =
     (case get_field ''amount'' (body req) of
        None \<Rightarrow> (res_status_json 400 (error_body ''Amount must be at least 1 sat''), s)
      | Some amount \<Rightarrow>
          if falsy (Some amount) \<or> less_than_1 ToNumber amount
          then (res_status_json 400 (error_body ''Amount must be at least 1 sat''), s)
          else
            (case call_createMintQuote M (activeMint env) amount s of
               (Inl err, s1) \<Rightarrow> (res_status_json 500 (error_body err), s1)
             | (Inr q, s1) \<Rightarrow>
                 (case toDataURL M (request q) of
                    Inl err \<Rightarrow> (res_status_json 500 (error_body err), s1)
                  | Inr qrCode \<Rightarrow>
                      (res_json (JObj [(''quoteId'', JStr (quote q)),
                                       (''amount'', amount),
                                       (''paymentRequest'', JStr (request q)),
                                       (''qrCode'', JStr qrCode),
                                       (''mint'', JStr (activeMint env))]),
                       s1))))"

text \<open>\<open>GET /api/donate/check/:quoteId\<close>; the route parameter is the argument \<open>quoteId\<close>.\<close>

definition get_api_donate_check ::
  "string option \<Rightarrow> 'w collaborators \<Rightarrow> string \<Rightarrow> 'w world \<Rightarrow> response \<times> 'w world" where
  "get_api_donate_check env M quoteId s =
     (case call_redeemMintQuote M (activeMint env) quoteId s of
        (Inl err, s1) \<Rightarrow> (res_json (JObj [(''paid'', JBool False), (''error'', JStr err)]), s1)
      | (Inr u, s1) \<Rightarrow>
          (case call_getBalances M s1 of
             (Inl err, s2) \<Rightarrow>
               (res_json (JObj [(''paid'', JBool False), (''error'', JStr err)]), s2)
           | (Inr balances, s2) \<Rightarrow>
               (res_json (JObj [(''paid'', JBool True),
                                (''balance'', JNum (balance_or_0 balances (activeMint env)))]),
                s2)))"

text \<open>
  \<open>POST /api/puzzle/solve\<close>, in three parts that follow the source's order: the payout
  once the solution is known to be correct, the validation once the rate limiter has
  allowed the attempt, and the handler with its shape check and rate limit. \<open>now\<close> is
  the clock reading of the call of \<open>checkRateLimit\<close>. A property whose value is
  \<open>undefined\<close> is left out of a JSON body. A field that is missing is falsy, so past
  the shape check both fields are present: the last case of the handler only names the
  two values, and its other branch is the one of the shape check.
\<close>

definition pay_reward ::
  "string option \<Rightarrow> 'w collaborators \<Rightarrow> 'w world \<Rightarrow> response \<times> 'w world" where
  "pay_reward env M s =
     (case call_getBalances M s of
        (Inl err, s1) \<Rightarrow> (res_status_json 500 (error_body err), s1)
      | (Inr balances, s1) \<Rightarrow>
          if balance_or_0 balances (activeMint env) < puzzleReward (config env)
          then (res_status_json 503
                  (error_body ''Insufficient funds in puzzle pot. Please ask someone to donate!''),
                s1)
          else
            (case call_send M (activeMint env) (puzzleReward (config env)) s1 of
               (Inl err, s2) \<Rightarrow> (res_status_json 500 (error_body err), s2)
             | (Inr token, s2) \<Rightarrow>
                 (case getEncodedToken M token of
                    Inl err \<Rightarrow> (res_status_json 500 (error_body err), s2)
                  | Inr tokenString \<Rightarrow>
                      (case toDataURL M tokenString of
                         Inl err \<Rightarrow> (res_status_json 500 (error_body err), s2)
                       | Inr qrCode \<Rightarrow>
                           (case call_getBalances M s2 of
                              (Inl err, s3) \<Rightarrow> (res_status_json 500 (error_body err), s3)
                            | (Inr newBalance, s3) \<Rightarrow>
                                (res_json
                                   (JObj [(''success'', JBool True),
                                          (''reward'', JNum (puzzleReward (config env))),
                                          (''token'', JStr tokenString),
                                          (''qrCode'', JStr qrCode),
                                          (''remainingBalance'',
                                             JNum (balance_or_0 newBalance (activeMint env)))]),
                                 s3))))))"

definition validate_and_pay ::
  "string option \<Rightarrow> 'w collaborators \<Rightarrow> puzzle list \<Rightarrow> json \<Rightarrow> json \<Rightarrow> 'w world
     \<Rightarrow> response \<times> 'w world" where
  "validate_and_pay env M puzzlesData puzzleId moves s =
     (case find (\<lambda>p. JStr (puzzle_id p) = puzzleId) puzzlesData of
        None \<Rightarrow> (res_status_json 400 (error_body ''Puzzle not found. Please try a new puzzle.''), s)
      | Some p \<Rightarrow>
          if \<not> isCorrect moves p
          then (res_status_json 400 (error_body ''Incorrect solution. Try again!''), s)
          else pay_reward env M s)"

definition post_api_puzzle_solve ::
  "string option \<Rightarrow> 'w collaborators \<Rightarrow> puzzle list \<Rightarrow> int \<Rightarrow> request \<Rightarrow> 'w world
     \<Rightarrow> response \<times> 'w world" where
  "post_api_puzzle_solve env M puzzlesData now req s =
     (let puzzleId = get_field ''puzzleId'' (body req);
          moves = get_field ''moves'' (body req);
          invalid = (res_status_json 400
                       (error_body ''Invalid request. Provide puzzleId and moves array.''), s)
      in
        if falsy puzzleId \<or> falsy moves \<or> \<not> isArray moves then invalid
        else
          (case (puzzleId, moves) of
             (Some pid, Some mv) \<Rightarrow>
               (case checkRateLimit env now (clientIp req) (rateLimitMap s) of
                  (rateLimitCheck, m') \<Rightarrow>
                    if \<not> allowed rateLimitCheck
                    then (res_status_json 429
                            (JObj (case message rateLimitCheck of
                                     None \<Rightarrow> []
                                   | Some msg \<Rightarrow> [(''error'', JStr msg)])),
                          s\<lparr>rateLimitMap := m'\<rparr>)
                    else validate_and_pay env M puzzlesData pid mv (s\<lparr>rateLimitMap := m'\<rparr>))
           | _ \<Rightarrow> invalid))"

section \<open>Collaborators and inputs of the worked examples\<close>

text \<open>
  Two wallets to run the handlers on. \<open>pot_wallet\<close> keeps its balances per mint in a list
  and pays out of it; a mint quote is never paid there. In \<open>offline_wallet\<close> every
  operation throws.
\<close>

definition pot_wallet :: "(string \<times> int) list collaborators" where
  "pot_wallet =
     \<lparr> getBalances = (\<lambda>w. Inr w),
       send = (\<lambda>mint amount w.
                 (Inr (JObj [(''mint'', JStr mint), (''amount'', JNum amount)]),
                  map (\<lambda>kv. if fst kv = mint then (fst kv, snd kv - amount) else kv) w)),
       receive = (\<lambda>token w. (Inr (), w)),
       createMintQuote = (\<lambda>mint amount w. (Inr \<lparr>quote = ''q1'', request = ''lnbc1''\<rparr>, w)),
       redeemMintQuote = (\<lambda>mint quoteId w. (Inl ''Quote not paid'', w)),
       getEncodedToken = (\<lambda>token. Inr ''cashuB''),
       toDataURL = (\<lambda>text. Inr (''data:image/png;base64,'' @ text)) \<rparr>"

definition offline_wallet :: "unit collaborators" where
  "offline_wallet =
     \<lparr> getBalances = (\<lambda>w. Inl ''fetch failed''),
       send = (\<lambda>mint amount w. (Inl ''fetch failed'', w)),
       receive = (\<lambda>token w. (Inl ''fetch failed'', w)),
       createMintQuote = (\<lambda>mint amount w. (Inl ''fetch failed'', w)),
       redeemMintQuote = (\<lambda>mint quoteId w. (Inl ''fetch failed'', w)),
       getEncodedToken = (\<lambda>token. Inl ''fetch failed''),
       toDataURL = (\<lambda>text. Inl ''fetch failed'') \<rparr>"

definition example_puzzle :: puzzle where
  "example_puzzle =
     \<lparr> puzzle_id = ''00sHx'', fen = ''r1bqkbnr/pppp1ppp/2n5/4p3/4P3/5N2/PPPP1PPP/RNBQKB1R'',
       solution = [''e7e5'', ''Nf3'', ''Nc6'', ''Bb5''], rating = 1000, themes = [''opening''] \<rparr>"

definition solve_request :: "string list \<Rightarrow> request" where
  "solve_request moves =
     \<lparr> body = JObj [(''puzzleId'', JStr ''00sHx''), (''moves'', JArr (map JStr moves))],
       ip = Some ''10.0.0.1'', remoteAddress = None \<rparr>"

definition test_mint :: string where
  "test_mint = ''https://nofees.testnut.cashu.space''"

definition pot_world :: "int \<Rightarrow> (string option \<rightharpoonup> int) \<Rightarrow> (string \<times> int) list world" where
  "pot_world balance m = \<lparr>rateLimitMap = m, wallet = [(test_mint, balance)], calls = []\<rparr>"

definition offline_world :: "unit world" where
  "offline_world = \<lparr>rateLimitMap = Map.empty, wallet = (), calls = []\<rparr>"

text \<open>A request body with the fields of all three \<open>POST\<close> routes.\<close>

definition any_post_request :: request where
  "any_post_request =
     \<lparr> body = JObj [(''token'', JStr ''cashuB''), (''amount'', JNum 21),
                    (''puzzleId'', JStr ''00sHx''), (''moves'', JArr [JStr ''Nf3'', JStr ''Bb5''])],
       ip = Some ''10.0.0.1'', remoteAddress = None \<rparr>"

section \<open>The rate limiter: what \<open>checkRateLimit\<close> and the clean-up do\<close>

lemma rateLimitMs_eq: "rateLimitMs env = 5000"
  by (simp add: rateLimitMs_def config_def)

text \<open>The ceiling of the quotient, in integer arithmetic.\<close>

lemma secondsRemaining_int: "secondsRemaining env d = - ((d - 5000) div 1000)"
proof -
  have "\<lceil>real_of_int (5000 - d) / real_of_int 1000\<rceil> = - (- (5000 - d) div 1000)"
    by (rule ceiling_divide_eq_div)
  then show ?thesis
    by (simp add: secondsRemaining_def rateLimitMs_eq)
qed

lemma checkRateLimit_first:
  "m k = None \<Longrightarrow>
   checkRateLimit env t k m = (\<lparr>allowed = True, message = None\<rparr>, m(k \<mapsto> t))"
  by (simp add: checkRateLimit_def)

lemma checkRateLimit_elapsed:
  "m k = Some lastSolve \<Longrightarrow> 5000 \<le> t - lastSolve \<Longrightarrow>
   checkRateLimit env t k m = (\<lparr>allowed = True, message = None\<rparr>, m(k \<mapsto> t))"
  by (simp add: checkRateLimit_def rateLimitMs_eq Let_def)

lemma checkRateLimit_denied:
  "m k = Some lastSolve \<Longrightarrow> lastSolve \<noteq> 0 \<Longrightarrow> t - lastSolve < 5000 \<Longrightarrow>
   checkRateLimit env t k m =
     (\<lparr>allowed = False,
       message = Some (rateLimitMessage env (secondsRemaining env (t - lastSolve)))\<rparr>, m)"
  by (simp add: checkRateLimit_def rateLimitMs_eq Let_def)

lemma checkRateLimit_allowed_records:
  "allowed (fst (checkRateLimit env t k m)) \<Longrightarrow> snd (checkRateLimit env t k m) = m(k \<mapsto> t)"
  by (simp add: checkRateLimit_def Let_def split: option.splits if_splits)

lemma checkRateLimit_denied_cases:
  "\<not> allowed (fst (checkRateLimit env t k m)) \<Longrightarrow>
   \<exists>lastSolve. m k = Some lastSolve \<and> lastSolve \<noteq> 0 \<and> t - lastSolve < 5000"
  by (simp add: checkRateLimit_def Let_def rateLimitMs_eq split: option.splits if_splits)

text \<open>
  Unless the stored clock reading is \<open>0\<close>, \<open>checkRateLimit\<close> is the operation of the
  specification with a cooldown of 5000 milliseconds: the same flag, the same map, and
  on a denial the message built from the same seconds remaining.
\<close>

lemma checkRateLimit_refines_spec:
  assumes "m k \<noteq> Some 0"
  shows "allowed (fst (checkRateLimit env t k m)) = fst (fst (spec_checkAndRecord 5000 t k m))"
    and "message (fst (checkRateLimit env t k m))
           = map_option (rateLimitMessage env) (snd (fst (spec_checkAndRecord 5000 t k m)))"
    and "snd (checkRateLimit env t k m) = snd (spec_checkAndRecord 5000 t k m)"
  using assms
  by (auto simp add: checkRateLimit_def spec_checkAndRecord_def secondsRemaining_def
      rateLimitMs_eq Let_def split: option.splits)

text \<open>
  From a clock that does not read \<open>0\<close> the scenario of the specification runs as it is
  written: allowed, denied three seconds later with two seconds to wait, allowed six
  seconds after the first attempt.
\<close>

lemma cooldown_scenario_from_nonzero_clock:
  assumes "T \<noteq> 0"
  shows "checkRateLimit env T k Map.empty = (\<lparr>allowed = True, message = None\<rparr>, [k \<mapsto> T])"
    and "checkRateLimit env (T + 3000) k [k \<mapsto> T]
           = (\<lparr>allowed = False, message = Some (rateLimitMessage env 2)\<rparr>, [k \<mapsto> T])"
    and "checkRateLimit env (T + 6000) k [k \<mapsto> T]
           = (\<lparr>allowed = True, message = None\<rparr>, [k \<mapsto> T + 6000])"
  using assms
  by (simp_all add: checkRateLimit_first checkRateLimit_elapsed checkRateLimit_denied
      secondsRemaining_int)

text \<open>
  A stored reading of \<open>0\<close> is what \<open>!lastSolve\<close> takes for a missing entry: after a
  clock reading of \<open>0\<close> the next call is allowed whatever the time elapsed, where the
  operation of the specification denies it. No map that the server reaches holds such a
  reading.
\<close>

lemma checkRateLimit_after_reading_zero:
  "checkRateLimit None 3000 ''10.0.0.1'' [''10.0.0.1'' \<mapsto> 0]
     = (\<lparr>allowed = True, message = None\<rparr>, [''10.0.0.1'' \<mapsto> 3000])
   \<and> spec_checkAndRecord 5000 3000 ''10.0.0.1'' [''10.0.0.1'' \<mapsto> 0]
     = ((False, Some 2), [''10.0.0.1'' \<mapsto> 0])"
  by (simp add: checkRateLimit_def spec_checkAndRecord_def)

lemma checkRateLimit_keeps_readings_nonzero:
  "m k' \<noteq> Some 0 \<Longrightarrow> t \<noteq> 0 \<Longrightarrow> snd (checkRateLimit env t k m) k' \<noteq> Some 0"
  by (auto simp add: checkRateLimit_def Let_def split: option.splits if_splits)

lemma cleanup_keeps_readings_nonzero:
  "m k' \<noteq> Some 0 \<Longrightarrow> cleanup env t m k' \<noteq> Some 0"
  by (auto simp add: cleanup_def split: option.splits if_splits)

lemma reachable_readings_nonzero: "reachable env m \<Longrightarrow> m k \<noteq> Some 0"
  by (induction rule: reachable.induct)
     (simp_all add: checkRateLimit_keeps_readings_nonzero cleanup_keeps_readings_nonzero)

text \<open>
  C1. In every map that the server reaches, for every client key and every clock
  reading, \<open>checkRateLimit\<close> is the operation of the specification with the cooldown
  \<open>rateLimitSeconds * 1000\<close>: without an entry it stores the reading and allows; with an
  entry and an elapsed time of at least the cooldown it stores the reading and allows;
  with a shorter elapsed time it denies, its message names the ceiling of
  \<open>(cooldown - elapsed) / 1000\<close> seconds, and the entry stays. With the cooldown of 5
  seconds, counted from a first call at clock reading \<open>T\<close>: that call is allowed, a call
  3 seconds later is denied with 2 seconds remaining, a call 6 seconds later is allowed.
\<close>

theorem checkRateLimit_is_specified_operation:
  assumes "reachable env m"
  shows "allowed (fst (checkRateLimit env t k m))
           = fst (fst (spec_checkAndRecord (rateLimitSeconds (config env) * 1000) t k m))
       \<and> message (fst (checkRateLimit env t k m))
           = map_option (rateLimitMessage env)
               (snd (fst (spec_checkAndRecord (rateLimitSeconds (config env) * 1000) t k m)))
       \<and> snd (checkRateLimit env t k m)
           = snd (spec_checkAndRecord (rateLimitSeconds (config env) * 1000) t k m)
       \<and> (T \<noteq> 0 \<longrightarrow>
            checkRateLimit env T k Map.empty
              = (\<lparr>allowed = True, message = None\<rparr>, [k \<mapsto> T])
          \<and> checkRateLimit env (T + 3000) k [k \<mapsto> T]
              = (\<lparr>allowed = False, message = Some (rateLimitMessage env 2)\<rparr>, [k \<mapsto> T])
          \<and> checkRateLimit env (T + 6000) k [k \<mapsto> T]
              = (\<lparr>allowed = True, message = None\<rparr>, [k \<mapsto> T + 6000]))"
proof -
  have cooldown: "rateLimitSeconds (config env) * 1000 = 5000"
    by (simp add: config_def)
  have "m k \<noteq> Some 0"
    using assms by (rule reachable_readings_nonzero)
  then show ?thesis
    unfolding cooldown
    by (simp add: checkRateLimit_refines_spec cooldown_scenario_from_nonzero_clock)
qed

theorem checkRateLimit_is_specified_operation_witness:
  "reachable None (snd (checkRateLimit None 1700000000000 ''10.0.0.1'' Map.empty))
   \<and> snd (checkRateLimit None 1700000000000 ''10.0.0.1'' Map.empty)
       = [''10.0.0.1'' \<mapsto> 1700000000000]
   \<and> spec_checkAndRecord (rateLimitSeconds (config None) * 1000) 1700000003000 ''10.0.0.1''
        [''10.0.0.1'' \<mapsto> 1700000000000]
       = ((False, Some 2), [''10.0.0.1'' \<mapsto> 1700000000000])
   \<and> checkRateLimit None 1700000003000 ''10.0.0.1'' [''10.0.0.1'' \<mapsto> 1700000000000]
       = (\<lparr>allowed = False, message = Some (rateLimitMessage None 2)\<rparr>,
          [''10.0.0.1'' \<mapsto> 1700000000000])
   \<and> (1700000000000 :: int) \<noteq> 0
   \<and> checkRateLimit None (1700000000000 + 6000) ''10.0.0.1'' [''10.0.0.1'' \<mapsto> 1700000000000]
       = (\<lparr>allowed = True, message = None\<rparr>, [''10.0.0.1'' \<mapsto> 1700000000000 + 6000])"
proof -
  have r: "reachable None (snd (checkRateLimit None 1700000000000 ''10.0.0.1'' Map.empty))"
    by (rule reachable.check [OF reachable.start]) simp
  have m: "snd (checkRateLimit None 1700000000000 ''10.0.0.1'' Map.empty)
       = [''10.0.0.1'' \<mapsto> 1700000000000]"
    by (simp add: checkRateLimit_def)
  have s: "spec_checkAndRecord (rateLimitSeconds (config None) * 1000) 1700000003000 ''10.0.0.1''
        [''10.0.0.1'' \<mapsto> 1700000000000]
       = ((False, Some 2), [''10.0.0.1'' \<mapsto> 1700000000000])"
    by (simp add: spec_checkAndRecord_def config_def)
  note th = checkRateLimit_is_specified_operation
      [OF r, of 1700000003000 "''10.0.0.1''" 1700000000000]
  have d: "checkRateLimit None 1700000003000 ''10.0.0.1'' [''10.0.0.1'' \<mapsto> 1700000000000]
       = (\<lparr>allowed = False, message = Some (rateLimitMessage None 2)\<rparr>,
          [''10.0.0.1'' \<mapsto> 1700000000000])"
    using th s unfolding m
    by (cases "checkRateLimit None 1700000003000 ''10.0.0.1'' [''10.0.0.1'' \<mapsto> 1700000000000]")
       simp
  show ?thesis
    using r m s d th by simp
qed

text \<open>
  C6. The clean-up at clock reading \<open>t\<close> removes exactly the entries whose age
  \<open>t - lastSolve\<close> exceeds ten times the rate limit and keeps every other entry as it
  is; after an entry is removed, an attempt of that client at any time \<open>t'\<close> is handled
  as a first attempt: it is allowed and recorded.
\<close>

theorem cleanup_removes_stale_entries:
  "(cleanup env t m k = None)
     = (m k = None \<or> (\<exists>lastSolve. m k = Some lastSolve \<and> t - lastSolve > rateLimitMs env * 10))
   \<and> (cleanup env t m k = Some lastSolve)
     = (m k = Some lastSolve \<and> \<not> t - lastSolve > rateLimitMs env * 10)
   \<and> (m k = Some lastSolve \<and> t - lastSolve > rateLimitMs env * 10 \<longrightarrow>
        checkRateLimit env t' k (cleanup env t m)
          = (\<lparr>allowed = True, message = None\<rparr>, (cleanup env t m)(k \<mapsto> t')))"
  by (auto simp add: cleanup_def checkRateLimit_def split: option.splits)

theorem cleanup_removes_stale_entries_witness:
  "[''10.0.0.1'' \<mapsto> 1000] ''10.0.0.1'' = Some (1000 :: int)
   \<and> (60000 :: int) - 1000 > rateLimitMs None * 10
   \<and> cleanup None 60000 [''10.0.0.1'' \<mapsto> 1000] ''10.0.0.1'' = None
   \<and> checkRateLimit None 60001 ''10.0.0.1'' (cleanup None 60000 [''10.0.0.1'' \<mapsto> 1000])
       = (\<lparr>allowed = True, message = None\<rparr>,
          (cleanup None 60000 [''10.0.0.1'' \<mapsto> 1000])(''10.0.0.1'' \<mapsto> 60001))"
  using cleanup_removes_stale_entries
    [of None 60000 "[''10.0.0.1'' \<mapsto> 1000]" "''10.0.0.1''" 1000 60001]
  by (simp add: rateLimitMs_eq)

text \<open>
  C9. For every map, client and clock reading, \<open>checkRateLimit\<close> gives the same result
  object (allowed or denied, and the same message with the same seconds remaining)
  whether or not the clean-up ran first at that clock reading.
\<close>

theorem cleanup_preserves_outcome:
  "fst (checkRateLimit env t k (cleanup env t m)) = fst (checkRateLimit env t k m)"
  by (simp add: cleanup_def checkRateLimit_def rateLimitMs_eq Let_def split: option.splits)

text \<open>The same holds for a check at any later clock reading.\<close>

lemma cleanup_preserves_later_outcome:
  "t \<le> t' \<Longrightarrow>
   fst (checkRateLimit env t' k (cleanup env t m)) = fst (checkRateLimit env t' k m)"
  by (simp add: cleanup_def checkRateLimit_def rateLimitMs_eq Let_def split: option.splits)

text \<open>
  The loop over the entries of the map computes the clean-up: it deletes the stale keys
  one by one and ends with the filtered map.
\<close>

lemma cleanup_loop_other:
  "k \<notin> fst ` set es \<Longrightarrow> cleanup_loop env t es m k = m k"
  by (induction es arbitrary: m) auto

lemma cleanup_loop_entries:
  "distinct (map fst es) \<Longrightarrow> (k, lastSolve) \<in> set es \<Longrightarrow> m k = Some lastSolve \<Longrightarrow>
   cleanup_loop env t es m k = (if t - lastSolve > rateLimitMs env * 10 then None else Some lastSolve)"
proof (induction es arbitrary: m)
  case Nil
  then show ?case by simp
next
  case (Cons e es)
  obtain k' l' where e: "e = (k', l')" by (cases e)
  show ?case
  proof (cases "k' = k")
    case True
    with Cons.prems e have "l' = lastSolve" and "k \<notin> fst ` set es"
      by (auto simp add: rev_image_eqI)
    with True e show ?thesis
      by (simp add: cleanup_loop_other Cons.prems(3))
  next
    case False
    with Cons.prems e have "(k, lastSolve) \<in> set es" and "distinct (map fst es)"
      by auto
    with Cons.IH [of "if t - l' > rateLimitMs env * 10 then m(k' := None) else m"] False e Cons.prems(3)
    show ?thesis by simp
  qed
qed

lemma cleanup_loop_is_cleanup:
  assumes "distinct (map fst es)"
  shows "cleanup_loop env t es (map_of es) = cleanup env t (map_of es)"
proof (rule ext)
  fix k
  show "cleanup_loop env t es (map_of es) k = cleanup env t (map_of es) k"
  proof (cases "map_of es k")
    case None
    then have "k \<notin> fst ` set es" by (simp add: map_of_eq_None_iff)
    with None show ?thesis by (simp add: cleanup_loop_other cleanup_def)
  next
    case (Some lastSolve)
    then have "(k, lastSolve) \<in> set es" by (rule map_of_SomeD)
    with assms Some show ?thesis
      by (simp add: cleanup_loop_entries cleanup_def)
  qed
qed

text \<open>
  A recorded attempt counts against the cooldown: a check of the same client less than
  five seconds after a recorded clock reading other than \<open>0\<close> is denied.
\<close>

lemma recorded_attempt_denies_next:
  "t \<noteq> 0 \<Longrightarrow> t' - t < 5000 \<Longrightarrow> \<not> allowed (fst (checkRateLimit env t' k (m(k \<mapsto> t))))"
  by (simp add: checkRateLimit_denied)

lemma recorded_attempt_allows_later:
  "rateLimitMs env \<le> t' - t \<Longrightarrow> allowed (fst (checkRateLimit env t' k (m(k \<mapsto> t))))"
  by (simp add: checkRateLimit_def Let_def)

section \<open>\<open>JSON.stringify\<close> tells arrays of strings apart\<close>

text \<open>
  The validation compares two serialisations. The lemmas of this section show that the
  serialisation of an array equals that of an array of strings only when the two arrays
  are equal: an escaped character determines the character it stands for, a quoted
  string ends at its first unescaped quotation mark, and no other JSON value begins
  with a quotation mark.
\<close>

lemma of_char_hex_char:
  "a < 16 \<Longrightarrow> (of_char (hex_char a) :: nat) = (if a < 10 then 48 + a else 87 + a)"
  by (simp add: hex_char_def)

lemma hex_char_inj:
  assumes "a < 16" "b < 16" "hex_char a = hex_char b"
  shows "a = b"
proof -
  have "(of_char (hex_char a) :: nat) = of_char (hex_char b)"
    using assms(3) by simp
  then show ?thesis
    using assms(1,2) by (simp add: of_char_hex_char split: if_splits)
qed

lemma hex_pair_inj:
  assumes "(of_char c :: nat) < 32" "(of_char d :: nat) < 32"
    and "hex_char (of_char c div 16) = hex_char (of_char d div 16)"
    and "hex_char (of_char c mod 16) = hex_char (of_char d mod 16)"
  shows "c = d"
proof -
  have "(of_char c :: nat) div 16 = of_char d div 16"
    using assms(1,2) by (intro hex_char_inj [OF _ _ assms(3)]) auto
  moreover have "(of_char c :: nat) mod 16 = of_char d mod 16"
    by (intro hex_char_inj [OF _ _ assms(4)]) auto
  ultimately have "(of_char c :: nat) = of_char d"
    by (metis div_mult_mod_eq)
  then show ?thesis by simp
qed




lemma quote_char_cases:
  "(c \<noteq> dquote \<and> c \<noteq> backslash \<and> 32 \<le> (of_char c :: nat) \<and> quote_char c = [c])
   \<or> (c = dquote \<and> quote_char c = [backslash, dquote])
   \<or> (c = backslash \<and> quote_char c = [backslash, backslash])
   \<or> (c = CHR 0x08 \<and> quote_char c = [backslash, CHR ''b''])
   \<or> (c = CHR 0x09 \<and> quote_char c = [backslash, CHR ''t''])
   \<or> (c = CHR 0x0A \<and> quote_char c = [backslash, CHR ''n''])
   \<or> (c = CHR 0x0C \<and> quote_char c = [backslash, CHR ''f''])
   \<or> (c = CHR 0x0D \<and> quote_char c = [backslash, CHR ''r''])
   \<or> ((of_char c :: nat) < 32 \<and> quote_char c = [backslash, CHR ''u'', CHR ''0'', CHR ''0'',
         hex_char (of_char c div 16), hex_char (of_char c mod 16)])"
  by (simp add: quote_char_def dquote_def backslash_def)

lemma quote_char_prefix:
  assumes "quote_char c @ r = quote_char d @ r'"
  shows "c = d \<and> r = r'"
  using quote_char_cases [of c] quote_char_cases [of d] assms
  apply (elim disjE conjE)
  apply (simp_all add: dquote_def backslash_def)
  apply (auto dest: hex_pair_inj)
  done

lemma quote_char_first: "\<exists>x xs. quote_char c = x # xs \<and> x \<noteq> dquote"
  using quote_char_cases [of c] by (auto simp add: dquote_def backslash_def)

lemma quoted_chars_inj:
  "concat (map quote_char s) @ dquote # r = concat (map quote_char t) @ dquote # r'
   \<Longrightarrow> s = t \<and> r = r'"
proof (induction s arbitrary: t)
  case Nil
  show ?case
  proof (cases t)
    case Nil
    with Nil.prems show ?thesis by simp
  next
    case (Cons d t')
    obtain x xs where "quote_char d = x # xs" "x \<noteq> dquote"
      using quote_char_first by blast
    with Nil.prems Cons show ?thesis by simp
  qed
next
  case (Cons c s')
  show ?case
  proof (cases t)
    case Nil
    obtain x xs where "quote_char c = x # xs" "x \<noteq> dquote"
      using quote_char_first by blast
    with Cons.prems Nil show ?thesis by simp
  next
    case (Cons d t')
    with Cons.prems have
      "quote_char c @ (concat (map quote_char s') @ dquote # r)
       = quote_char d @ (concat (map quote_char t') @ dquote # r')"
      by simp
    then have "c = d" and
      "concat (map quote_char s') @ dquote # r = concat (map quote_char t') @ dquote # r'"
      using quote_char_prefix by blast+
    with Cons.IH Cons show ?thesis by simp
  qed
qed

lemma QuoteJSONString_prefix:
  "QuoteJSONString s @ r = QuoteJSONString t @ r' \<Longrightarrow> s = t \<and> r = r'"
  using quoted_chars_inj [of s r t r'] by (simp add: QuoteJSONString_def)

lemma nat_to_string_first: "\<exists>d ds. nat_to_string n = digit_char d # ds \<and> d < 10"
proof (induction n rule: nat_to_string.induct)
  case (1 n)
  show ?case
  proof (cases "n < 10")
    case True
    then show ?thesis by (subst nat_to_string.simps) auto
  next
    case False
    with 1 obtain d ds where "nat_to_string (n div 10) = digit_char d # ds" "d < 10"
      by blast
    with False show ?thesis by (subst nat_to_string.simps) auto
  qed
qed

lemma digit_char_neq: "d < 10 \<Longrightarrow> digit_char d \<noteq> dquote"
proof
  assume "d < 10" "digit_char d = dquote"
  then have "(of_char (digit_char d) :: nat) = of_char dquote" by simp
  with \<open>d < 10\<close> show False by (simp add: digit_char_def dquote_def)
qed

lemma JSON_stringify_first:
  "\<exists>x xs. JSON_stringify v = x # xs \<and> (x = dquote \<longrightarrow> (\<exists>s. v = JStr s))"
proof (cases v)
  case (JNum n)
  obtain d ds where "nat_to_string (nat (- n)) = digit_char d # ds" "d < 10"
    using nat_to_string_first by blast
  moreover obtain d' ds' where "nat_to_string (nat n) = digit_char d' # ds'" "d' < 10"
    using nat_to_string_first by blast
  ultimately show ?thesis
    using JNum by (auto simp add: number_to_string_def dquote_def digit_char_neq [unfolded dquote_def])
qed (auto simp add: dquote_def QuoteJSONString_def)

lemma JSON_stringify_prefix_quoted:
  assumes "JSON_stringify v @ r = QuoteJSONString t @ r'"
  shows "v = JStr t \<and> r = r'"
proof -
  obtain x xs where first: "JSON_stringify v = x # xs" "x = dquote \<longrightarrow> (\<exists>s. v = JStr s)"
    using JSON_stringify_first by blast
  with assms have "x = dquote" by (simp add: QuoteJSONString_def)
  with first obtain s where "v = JStr s" by blast
  with assms show ?thesis using QuoteJSONString_prefix [of s r t r'] by simp
qed

lemma stringify_tail_inj:
  "concat (map (\<lambda>y. CHR '','' # y) (map JSON_stringify vs)) @ CHR '']'' # r
     = concat (map (\<lambda>y. CHR '','' # y) (map QuoteJSONString ts)) @ CHR '']'' # r'
   \<Longrightarrow> vs = map JStr ts"
proof (induction vs arbitrary: ts)
  case Nil
  then show ?case by (cases ts) auto
next
  case (Cons v vs')
  show ?case
  proof (cases ts)
    case Nil
    with Cons.prems show ?thesis by simp
  next
    case (Cons t ts')
    with Cons.prems have
      "JSON_stringify v @ (concat (map (\<lambda>y. CHR '','' # y) (map JSON_stringify vs')) @ CHR '']'' # r)
       = QuoteJSONString t @ (concat (map (\<lambda>y. CHR '','' # y) (map QuoteJSONString ts')) @ CHR '']'' # r')"
      by simp
    then have "v = JStr t" and
      "concat (map (\<lambda>y. CHR '','' # y) (map JSON_stringify vs')) @ CHR '']'' # r
       = concat (map (\<lambda>y. CHR '','' # y) (map QuoteJSONString ts')) @ CHR '']'' # r'"
      using JSON_stringify_prefix_quoted by blast+
    with Cons.IH Cons show ?thesis by simp
  qed
qed

lemma stringify_array_of_strings:
  "(JSON_stringify (JArr vs) = JSON_stringify (JArr (map JStr ts))) = (vs = map JStr ts)"
proof
  assume eq: "JSON_stringify (JArr vs) = JSON_stringify (JArr (map JStr ts))"
  show "vs = map JStr ts"
  proof (cases vs)
    case Nil
    with eq show ?thesis by (cases ts) (auto simp add: QuoteJSONString_def)
  next
    case (Cons v vs')
    note vs = Cons
    show ?thesis
    proof (cases ts)
      case Nil
      obtain x xs where "JSON_stringify v = x # xs" "x = dquote \<longrightarrow> (\<exists>s. v = JStr s)"
        using JSON_stringify_first by blast
      with eq vs Nil show ?thesis
        by (cases v) (auto simp add: QuoteJSONString_def dquote_def number_to_string_def)
    next
      case (Cons t ts')
      with eq vs have
        "JSON_stringify v @ (concat (map (\<lambda>y. CHR '','' # y) (map JSON_stringify vs')) @ CHR '']'' # [])
         = QuoteJSONString t @ (concat (map (\<lambda>y. CHR '','' # y) (map QuoteJSONString ts')) @ CHR '']'' # [])"
        by (simp add: comp_def)
      then have "v = JStr t" and
        "concat (map (\<lambda>y. CHR '','' # y) (map JSON_stringify vs')) @ CHR '']'' # []
         = concat (map (\<lambda>y. CHR '','' # y) (map QuoteJSONString ts')) @ CHR '']'' # []"
        using JSON_stringify_prefix_quoted by blast+
      with stringify_tail_inj vs Cons show ?thesis by simp
    qed
  qed
next
  assume "vs = map JStr ts"
  then show "JSON_stringify (JArr vs) = JSON_stringify (JArr (map JStr ts))" by simp
qed

section \<open>The validation of a solution\<close>

lemma filter_indexed_nth:
  "filter_indexed (\<lambda>_. P) i xs = map (\<lambda>j. xs ! j) (filter (\<lambda>j. P (i + j)) [0..<length xs])"
proof (induction xs arbitrary: i)
  case Nil
  show ?case by simp
next
  case (Cons x xs)
  have upt: "[0..<length (x # xs)] = 0 # map Suc [0..<length xs]"
    by (simp add: upt_conv_Cons map_Suc_upt del: upt_Suc)
  show ?case
    unfolding upt
    by (simp add: Cons.IH filter_map comp_def)
qed

lemma userMovesInSolution_spec:
  "userMovesInSolution p = spec_expected_sequence (solution p)"
proof -
  have "(\<lambda>j::nat. j mod 2 = 1) = odd"
    by (rule ext) (simp add: odd_iff_mod_2_eq_one)
  then show ?thesis
    using filter_indexed_nth [of "\<lambda>j. j mod 2 = 1" 0 "solution p"]
    by (simp add: userMovesInSolution_def spec_expected_sequence_def)
qed

lemma isCorrect_array:
  "isCorrect (JArr vs) p = (vs = map JStr (userMovesInSolution p))"
  by (simp only: isCorrect_def stringify_array_of_strings)

text \<open>
  C2. The submitted moves validate if and only if they are exactly the elements of the
  canonical solution at the odd positions (counted from 0), in the same order and number;
  this holds for a submitted array of any JSON values, and so for a list of move strings.
  The expected sequence itself always validates. For the solution
  \<open>e7e5, Nf3, Nc6, Bb5\<close> the expected sequence is \<open>Nf3, Bb5\<close>; \<open>Nf3, Bb5\<close> validates
  and \<open>Nf3, Nb5\<close> does not.
\<close>

theorem validation_exact_match:
  "isCorrect (JArr vs) p = (vs = map JStr (spec_expected_sequence (solution p)))
   \<and> isCorrect (JArr (map JStr ms)) p = (ms = spec_expected_sequence (solution p))
   \<and> isCorrect (JArr (map JStr (spec_expected_sequence (solution p)))) p
   \<and> spec_expected_sequence (solution example_puzzle) = [''Nf3'', ''Bb5'']
   \<and> isCorrect (JArr [JStr ''Nf3'', JStr ''Bb5'']) example_puzzle
   \<and> \<not> isCorrect (JArr [JStr ''Nf3'', JStr ''Nb5'']) example_puzzle"
proof -
  have inj: "(map JStr ms = map JStr ms') = (ms = ms')" for ms ms'
    by (simp add: inj_map_eq_map inj_on_def)
  have expected: "userMovesInSolution example_puzzle = [''Nf3'', ''Bb5'']"
    by (simp add: userMovesInSolution_def example_puzzle_def)
  show ?thesis
    using expected
    by (simp add: isCorrect_array inj flip: userMovesInSolution_spec)
qed

section \<open>The request handlers\<close>

lemmas call_defs =
  call_getBalances_def call_send_def call_receive_def call_createMintQuote_def
  call_redeemMintQuote_def logged_def Let_def

lemma wallet_threw_rateLimitMap:
  "wallet_threw (s\<lparr>rateLimitMap := m\<rparr>) s' err = wallet_threw s s' err"
  by (simp add: wallet_threw_def new_calls_def)

lemma wallet_threw_none:
  "wallet_threw s s err = False" "wallet_threw s (s\<lparr>rateLimitMap := m\<rparr>) err = False"
  by (simp_all add: wallet_threw_def new_calls_def)

lemma balance_failure:
  "wallet_threw s (snd (get_api_balance env M s)) err
   \<Longrightarrow> fst (get_api_balance env M s) = res_status_json 500 (error_body err)"
  by (cases "getBalances M (wallet s)")
     (simp_all add: get_api_balance_def call_defs wallet_threw_def new_calls_def)

lemma receive_failure:
  "wallet_threw s (snd (post_api_receive env M req s)) err
   \<Longrightarrow> fst (post_api_receive env M req s) = res_status_json 500 (error_body err)"
  by (auto simp add: post_api_receive_def call_defs wallet_threw_def new_calls_def
      split: sum.splits option.splits prod.splits if_splits)

lemma donate_failure:
  "wallet_threw s (snd (post_api_donate env ToNumber M req s)) err
   \<Longrightarrow> fst (post_api_donate env ToNumber M req s) = res_status_json 500 (error_body err)"
  by (auto simp add: post_api_donate_def call_defs wallet_threw_def new_calls_def
      split: sum.splits option.splits prod.splits if_splits)

lemma donate_check_failure:
  "wallet_threw s (snd (get_api_donate_check env M quoteId s)) err
   \<Longrightarrow> fst (get_api_donate_check env M quoteId s)
       = res_json (JObj [(''paid'', JBool False), (''error'', JStr err)])"
  by (auto simp add: get_api_donate_check_def call_defs wallet_threw_def new_calls_def
      split: sum.splits option.splits prod.splits if_splits)

lemma pay_reward_failure:
  "wallet_threw s (snd (pay_reward env M s)) err
   \<Longrightarrow> fst (pay_reward env M s) = res_status_json 500 (error_body err)"
  by (auto simp add: pay_reward_def call_defs wallet_threw_def new_calls_def
      split: sum.splits option.splits prod.splits if_splits)

lemma validate_and_pay_failure:
  "wallet_threw s (snd (validate_and_pay env M ps pid mv s)) err
   \<Longrightarrow> fst (validate_and_pay env M ps pid mv s) = res_status_json 500 (error_body err)"
  by (auto simp add: validate_and_pay_def pay_reward_failure wallet_threw_none
      split: option.splits if_splits)

lemma solve_failure:
  "wallet_threw s (snd (post_api_puzzle_solve env M ps t req s)) err
   \<Longrightarrow> fst (post_api_puzzle_solve env M ps t req s) = res_status_json 500 (error_body err)"
  using validate_and_pay_failure [of "s\<lparr>rateLimitMap := m\<rparr>" env M ps _ _ err for m]
  by (auto simp add: post_api_puzzle_solve_def Let_def wallet_threw_none wallet_threw_rateLimitMap
      split: option.splits if_splits prod.splits)

lemma pay_reward_rateLimitMap:
  "rateLimitMap (snd (pay_reward env M s)) = rateLimitMap s"
  by (auto simp add: pay_reward_def call_defs split: sum.splits prod.splits)

lemma validate_and_pay_rateLimitMap:
  "rateLimitMap (snd (validate_and_pay env M ps pid mv s)) = rateLimitMap s"
  by (simp add: validate_and_pay_def pay_reward_rateLimitMap split: option.splits)

text \<open>
  A request that passes the shape check and the rate limiter is validated in the state
  in which its clock reading is already recorded.
\<close>

lemma solve_allowed:
  assumes "get_field ''puzzleId'' (body req) = Some pid" and "\<not> falsy (Some pid)"
    and "get_field ''moves'' (body req) = Some (JArr vs)"
    and "allowed (fst (checkRateLimit env t (clientIp req) (rateLimitMap s)))"
  shows "post_api_puzzle_solve env M ps t req s
         = validate_and_pay env M ps pid (JArr vs)
             (s\<lparr>rateLimitMap := (rateLimitMap s)(clientIp req \<mapsto> t)\<rparr>)"
proof (cases "checkRateLimit env t (clientIp req) (rateLimitMap s)")
  case (Pair rateLimitCheck m')
  with assms(4) checkRateLimit_allowed_records [OF assms(4)]
  have "allowed rateLimitCheck" and "m' = (rateLimitMap s)(clientIp req \<mapsto> t)"
    by simp_all
  with Pair assms(1-3) show ?thesis
    by (simp add: post_api_puzzle_solve_def)
qed

text \<open>The definitions that a run of a handler on a concrete request unfolds.\<close>

lemmas example_defs =
  solve_request_def any_post_request_def example_puzzle_def pot_world_def offline_world_def
  pot_wallet_def offline_wallet_def test_mint_def get_field_def clientIp_def activeMint_def
  config_def balance_or_0_def res_json_def res_status_json_def error_body_def new_calls_def
  wallet_threw_def userMovesInSolution_def isCorrect_array

subsection \<open>Insufficient funds\<close>

text \<open>
  C3, as amended. For every solve request that carries a correct solution and that the
  rate limiter allows: if the wallet reports a balance of the active mint below the
  reward, the response is 503 with an error body and no token; the only wallet operation
  of the request is the balance query, so \<open>send\<close> is not invoked, and the wallet is
  left as it was.
\<close>

theorem insufficient_funds_503:
  assumes "get_field ''puzzleId'' (body req) = Some pid" and "\<not> falsy (Some pid)"
    and "get_field ''moves'' (body req) = Some (JArr vs)"
    and "allowed (fst (checkRateLimit env t (clientIp req) (rateLimitMap s)))"
    and "find (\<lambda>p. JStr (puzzle_id p) = pid) ps = Some p" and "isCorrect (JArr vs) p"
    and "getBalances M (wallet s) = Inr balances"
    and "balance_or_0 balances (activeMint env) < puzzleReward (config env)"
  shows "fst (post_api_puzzle_solve env M ps t req s)
           = res_status_json 503
               (error_body ''Insufficient funds in puzzle pot. Please ask someone to donate!'')
       \<and> new_calls s (snd (post_api_puzzle_solve env M ps t req s)) = [(GetBalances, Returned)]
       \<and> wallet (snd (post_api_puzzle_solve env M ps t req s)) = wallet s
       \<and> get_field ''token'' (res_body (fst (post_api_puzzle_solve env M ps t req s))) = None"
  using assms(5-8)
  by (simp add: solve_allowed [OF assms(1-4)] validate_and_pay_def pay_reward_def call_defs
      new_calls_def res_status_json_def error_body_def get_field_def)

theorem insufficient_funds_503_witness:
  "get_field ''puzzleId'' (body (solve_request [''Nf3'', ''Bb5''])) = Some (JStr ''00sHx'')
   \<and> \<not> falsy (Some (JStr ''00sHx''))
   \<and> get_field ''moves'' (body (solve_request [''Nf3'', ''Bb5'']))
       = Some (JArr [JStr ''Nf3'', JStr ''Bb5''])
   \<and> allowed (fst (checkRateLimit None 1700000000000 (clientIp (solve_request [''Nf3'', ''Bb5'']))
        (rateLimitMap (pot_world 5 Map.empty))))
   \<and> find (\<lambda>p. JStr (puzzle_id p) = JStr ''00sHx'') [example_puzzle] = Some example_puzzle
   \<and> isCorrect (JArr [JStr ''Nf3'', JStr ''Bb5'']) example_puzzle
   \<and> getBalances pot_wallet (wallet (pot_world 5 Map.empty)) = Inr [(test_mint, 5)]
   \<and> balance_or_0 [(test_mint, 5)] (activeMint None) < puzzleReward (config None)
   \<and> status (fst (post_api_puzzle_solve None pot_wallet [example_puzzle] 1700000000000
        (solve_request [''Nf3'', ''Bb5'']) (pot_world 5 Map.empty))) = 503
   \<and> new_calls (pot_world 5 Map.empty)
        (snd (post_api_puzzle_solve None pot_wallet [example_puzzle] 1700000000000
           (solve_request [''Nf3'', ''Bb5'']) (pot_world 5 Map.empty)))
       = [(GetBalances, Returned)]
   \<and> wallet (snd (post_api_puzzle_solve None pot_wallet [example_puzzle] 1700000000000
        (solve_request [''Nf3'', ''Bb5'']) (pot_world 5 Map.empty))) = [(test_mint, 5)]"
proof -
  have h1: "get_field ''puzzleId'' (body (solve_request [''Nf3'', ''Bb5''])) = Some (JStr ''00sHx'')"
    and h2: "\<not> falsy (Some (JStr ''00sHx''))"
    and h3: "get_field ''moves'' (body (solve_request [''Nf3'', ''Bb5'']))
       = Some (JArr [JStr ''Nf3'', JStr ''Bb5''])"
    and h4: "allowed (fst (checkRateLimit None 1700000000000
        (clientIp (solve_request [''Nf3'', ''Bb5''])) (rateLimitMap (pot_world 5 Map.empty))))"
    and h5: "find (\<lambda>p. JStr (puzzle_id p) = JStr ''00sHx'') [example_puzzle] = Some example_puzzle"
    and h6: "isCorrect (JArr [JStr ''Nf3'', JStr ''Bb5'']) example_puzzle"
    and h7: "getBalances pot_wallet (wallet (pot_world 5 Map.empty)) = Inr [(test_mint, 5)]"
    and h8: "balance_or_0 [(test_mint, 5)] (activeMint None) < puzzleReward (config None)"
    by (simp_all add: example_defs checkRateLimit_def)
  show ?thesis
    using h1 h2 h3 h4 h5 h6 h7 h8 insufficient_funds_503 [OF h1 h2 h3 h4 h5 h6 h7 h8]
    by (simp add: res_status_json_def pot_world_def)
qed

text \<open>
  The claim as it is written fails on a request that the rate limiter denies: the
  solution is correct and the balance of 5 is below the reward of 10, and the response
  is 429, two seconds after the client's last allowed attempt.
\<close>

theorem correct_solution_rate_limited_429:
  "isCorrect (JArr (map JStr [''Nf3'', ''Bb5''])) example_puzzle
   \<and> balance_or_0 [(test_mint, 5)] (activeMint None) < puzzleReward (config None)
   \<and> status (fst (post_api_puzzle_solve None pot_wallet [example_puzzle] 1700000002000
        (solve_request [''Nf3'', ''Bb5''])
        (pot_world 5 [Some ''10.0.0.1'' \<mapsto> 1700000000000]))) = 429"
  by (simp add: example_defs post_api_puzzle_solve_def checkRateLimit_def rateLimitMs_eq)

subsection \<open>Rate-limit denial\<close>

text \<open>
  C4, as amended. For every solve request that the rate limiter denies, the response
  has status 429 and its body has the single field \<open>error\<close>; there is no field
  \<open>retryAfterSeconds\<close>. The error message names the seconds remaining, a positive
  integer, which is no greater than the configured cooldown in seconds when the clock
  reading is not earlier than the recorded one.
\<close>

theorem rate_limited_429_error_only:
  assumes "get_field ''puzzleId'' (body req) = Some pid" and "\<not> falsy (Some pid)"
    and "get_field ''moves'' (body req) = Some (JArr vs)"
    and "\<not> allowed (fst (checkRateLimit env t (clientIp req) (rateLimitMap s)))"
  shows "\<exists>lastSolve.
           rateLimitMap s (clientIp req) = Some lastSolve
         \<and> fst (post_api_puzzle_solve env M ps t req s)
             = res_status_json 429
                 (JObj [(''error'',
                         JStr (rateLimitMessage env (secondsRemaining env (t - lastSolve))))])
         \<and> get_field ''retryAfterSeconds'' (res_body (fst (post_api_puzzle_solve env M ps t req s)))
             = None
         \<and> 1 \<le> secondsRemaining env (t - lastSolve)
         \<and> (lastSolve \<le> t \<longrightarrow>
              secondsRemaining env (t - lastSolve) \<le> rateLimitSeconds (config env))"
proof -
  obtain lastSolve where l: "rateLimitMap s (clientIp req) = Some lastSolve" "lastSolve \<noteq> 0"
    "t - lastSolve < 5000"
    using checkRateLimit_denied_cases [OF assms(4)] by blast
  have "1 \<le> secondsRemaining env (t - lastSolve)"
    using l(3) unfolding secondsRemaining_int by linarith
  moreover have
    "lastSolve \<le> t \<longrightarrow> secondsRemaining env (t - lastSolve) \<le> rateLimitSeconds (config env)"
    unfolding secondsRemaining_int by (simp add: config_def) linarith
  ultimately show ?thesis
    using l assms(1-3)
    by (simp add: post_api_puzzle_solve_def res_status_json_def get_field_def
        checkRateLimit_denied [of "rateLimitMap s" "clientIp req" lastSolve t env])
qed

theorem rate_limited_429_error_only_witness:
  "get_field ''puzzleId'' (body (solve_request [''Nf3'', ''Bb5''])) = Some (JStr ''00sHx'')
   \<and> \<not> falsy (Some (JStr ''00sHx''))
   \<and> get_field ''moves'' (body (solve_request [''Nf3'', ''Bb5'']))
       = Some (JArr [JStr ''Nf3'', JStr ''Bb5''])
   \<and> \<not> allowed (fst (checkRateLimit None 1700000002000
          (clientIp (solve_request [''Nf3'', ''Bb5'']))
          (rateLimitMap (pot_world 50 [Some ''10.0.0.1'' \<mapsto> 1700000000000]))))
   \<and> (1700000000000 :: int) \<le> 1700000002000
   \<and> fst (post_api_puzzle_solve None pot_wallet [example_puzzle] 1700000002000
        (solve_request [''Nf3'', ''Bb5''])
        (pot_world 50 [Some ''10.0.0.1'' \<mapsto> 1700000000000]))
       = res_status_json 429 (JObj [(''error'', JStr (rateLimitMessage None 3))])
   \<and> secondsRemaining None (1700000002000 - 1700000000000) = 3
   \<and> (3 :: int) \<le> rateLimitSeconds (config None)"
proof -
  have h1: "get_field ''puzzleId'' (body (solve_request [''Nf3'', ''Bb5''])) = Some (JStr ''00sHx'')"
    and h2: "\<not> falsy (Some (JStr ''00sHx''))"
    and h3: "get_field ''moves'' (body (solve_request [''Nf3'', ''Bb5'']))
       = Some (JArr [JStr ''Nf3'', JStr ''Bb5''])"
    and h4: "\<not> allowed (fst (checkRateLimit None 1700000002000
          (clientIp (solve_request [''Nf3'', ''Bb5'']))
          (rateLimitMap (pot_world 50 [Some ''10.0.0.1'' \<mapsto> 1700000000000]))))"
    by (simp_all add: example_defs checkRateLimit_def rateLimitMs_eq)
  have sec: "secondsRemaining None (1700000002000 - 1700000000000) = 3"
    by (simp add: secondsRemaining_int)
  show ?thesis
    using h1 h2 h3 h4 sec
      rate_limited_429_error_only [OF h1 h2 h3 h4, of pot_wallet "[example_puzzle]"]
    by (auto simp add: example_defs)
qed

text \<open>
  The claim as it is written fails on every denied request: the body of the 429
  response has no field \<open>retryAfterSeconds\<close>.
\<close>

theorem rate_limited_body_without_retryAfterSeconds:
  "\<not> allowed (fst (checkRateLimit None 1700000002000 (clientIp (solve_request [''Nf3'', ''Bb5'']))
        [Some ''10.0.0.1'' \<mapsto> 1700000000000]))
   \<and> status (fst (post_api_puzzle_solve None pot_wallet [example_puzzle] 1700000002000
        (solve_request [''Nf3'', ''Bb5''])
        (pot_world 50 [Some ''10.0.0.1'' \<mapsto> 1700000000000]))) = 429
   \<and> get_field ''retryAfterSeconds''
        (res_body (fst (post_api_puzzle_solve None pot_wallet [example_puzzle] 1700000002000
           (solve_request [''Nf3'', ''Bb5''])
           (pot_world 50 [Some ''10.0.0.1'' \<mapsto> 1700000000000])))) = None"
  by (simp add: example_defs post_api_puzzle_solve_def checkRateLimit_def rateLimitMs_eq)

text \<open>
  When the clock has stepped back since the recorded attempt, the seconds remaining
  exceed the cooldown: two seconds before the recorded reading, the message names 7.
\<close>

lemma denied_beyond_cooldown_after_clock_step_back:
  "checkRateLimit None 1700000000000 k [k \<mapsto> 1700000002000]
     = (\<lparr>allowed = False, message = Some (rateLimitMessage None 7)\<rparr>, [k \<mapsto> 1700000002000])"
  by (simp add: checkRateLimit_def rateLimitMs_eq secondsRemaining_int)

subsection \<open>The attempt is recorded before the validation\<close>

text \<open>
  C5. For every well-formed solve request that the rate limiter allows, at a clock
  reading \<open>t\<close>:
  \<^item> the validation and the payout run in the state whose rate-limit map already holds
    \<open>t\<close> for this client, and the map that the request leaves is exactly that one,
    whatever the puzzle data, the submitted moves and the wallet are;
  \<^item> so it is when the puzzle is unknown and when the solution is incorrect, which the
    handler answers with 400;
  \<^item> the attempt counts against the cooldown window: after the request, a check of
    this client at a clock reading \<open>t'\<close> less than the cooldown after \<open>t\<close> is denied,
    and a check at \<open>t''\<close>, the cooldown or more after \<open>t\<close>, is allowed.
\<close>

theorem attempt_recorded_before_validation:
  assumes "get_field ''puzzleId'' (body req) = Some pid" and "\<not> falsy (Some pid)"
    and "get_field ''moves'' (body req) = Some (JArr vs)"
    and "allowed (fst (checkRateLimit env t (clientIp req) (rateLimitMap s)))"
  shows "post_api_puzzle_solve env M ps t req s
         = validate_and_pay env M ps pid (JArr vs)
             (s\<lparr>rateLimitMap := (rateLimitMap s)(clientIp req \<mapsto> t)\<rparr>)
       \<and> rateLimitMap (snd (post_api_puzzle_solve env M ps t req s))
         = (rateLimitMap s)(clientIp req \<mapsto> t)
       \<and> (find (\<lambda>p. JStr (puzzle_id p) = pid) ps = None \<longrightarrow>
            status (fst (post_api_puzzle_solve env M ps t req s)) = 400)
       \<and> (find (\<lambda>p. JStr (puzzle_id p) = pid) ps = Some p \<longrightarrow> \<not> isCorrect (JArr vs) p \<longrightarrow>
            status (fst (post_api_puzzle_solve env M ps t req s)) = 400)
       \<and> (t \<noteq> 0 \<longrightarrow> t' - t < rateLimitSeconds (config env) * 1000 \<longrightarrow>
            \<not> allowed (fst (checkRateLimit env t' (clientIp req)
                  (rateLimitMap (snd (post_api_puzzle_solve env M ps t req s))))))
       \<and> (rateLimitSeconds (config env) * 1000 \<le> t'' - t \<longrightarrow>
            allowed (fst (checkRateLimit env t'' (clientIp req)
                  (rateLimitMap (snd (post_api_puzzle_solve env M ps t req s))))))"
proof -
  have cooldown: "rateLimitSeconds (config env) * 1000 = 5000"
    by (simp add: config_def)
  have run: "post_api_puzzle_solve env M ps t req s
         = validate_and_pay env M ps pid (JArr vs)
             (s\<lparr>rateLimitMap := (rateLimitMap s)(clientIp req \<mapsto> t)\<rparr>)"
    by (rule solve_allowed [OF assms])
  have after: "rateLimitMap (snd (post_api_puzzle_solve env M ps t req s))
         = (rateLimitMap s)(clientIp req \<mapsto> t)"
    by (simp add: run validate_and_pay_rateLimitMap)
  have unknown: "find (\<lambda>p. JStr (puzzle_id p) = pid) ps = None \<longrightarrow>
            status (fst (post_api_puzzle_solve env M ps t req s)) = 400"
    by (simp add: run validate_and_pay_def res_status_json_def)
  have incorrect: "find (\<lambda>p. JStr (puzzle_id p) = pid) ps = Some p \<longrightarrow>
            \<not> isCorrect (JArr vs) p \<longrightarrow>
            status (fst (post_api_puzzle_solve env M ps t req s)) = 400"
    by (simp add: run validate_and_pay_def res_status_json_def)
  have denied: "t \<noteq> 0 \<longrightarrow> t' - t < 5000 \<longrightarrow>
            \<not> allowed (fst (checkRateLimit env t' (clientIp req)
                  ((rateLimitMap s)(clientIp req \<mapsto> t))))"
    by (simp add: recorded_attempt_denies_next)
  have later: "5000 \<le> t'' - t \<longrightarrow>
            allowed (fst (checkRateLimit env t'' (clientIp req)
                  ((rateLimitMap s)(clientIp req \<mapsto> t))))"
    by (simp add: recorded_attempt_allows_later rateLimitMs_eq)
  show ?thesis
    unfolding after cooldown
    using run unknown incorrect denied later by blast
qed

theorem attempt_recorded_before_validation_witness:
  "get_field ''puzzleId'' (body (solve_request [''Nf3'', ''Nb5''])) = Some (JStr ''00sHx'')
   \<and> \<not> falsy (Some (JStr ''00sHx''))
   \<and> get_field ''moves'' (body (solve_request [''Nf3'', ''Nb5'']))
       = Some (JArr [JStr ''Nf3'', JStr ''Nb5''])
   \<and> allowed (fst (checkRateLimit None 1700000000000 (clientIp (solve_request [''Nf3'', ''Nb5'']))
        (rateLimitMap (pot_world 50 Map.empty))))
   \<and> find (\<lambda>p. JStr (puzzle_id p) = JStr ''00sHx'') [example_puzzle] = Some example_puzzle
   \<and> \<not> isCorrect (JArr [JStr ''Nf3'', JStr ''Nb5'']) example_puzzle
   \<and> find (\<lambda>p. JStr (puzzle_id p) = JStr ''00sHx'') [] = None
   \<and> (1700000000000 :: int) \<noteq> 0
   \<and> (1700000002000 :: int) - 1700000000000 < rateLimitSeconds (config None) * 1000
   \<and> rateLimitSeconds (config None) * 1000 \<le> (1700000006000 :: int) - 1700000000000
   \<and> status (fst (post_api_puzzle_solve None pot_wallet [example_puzzle] 1700000000000
        (solve_request [''Nf3'', ''Nb5'']) (pot_world 50 Map.empty))) = 400
   \<and> rateLimitMap (snd (post_api_puzzle_solve None pot_wallet [example_puzzle] 1700000000000
        (solve_request [''Nf3'', ''Nb5'']) (pot_world 50 Map.empty)))
       = [Some ''10.0.0.1'' \<mapsto> 1700000000000]
   \<and> \<not> allowed (fst (checkRateLimit None 1700000002000
          (clientIp (solve_request [''Nf3'', ''Nb5'']))
          (rateLimitMap (snd (post_api_puzzle_solve None pot_wallet [example_puzzle]
             1700000000000 (solve_request [''Nf3'', ''Nb5'']) (pot_world 50 Map.empty))))))
   \<and> allowed (fst (checkRateLimit None 1700000006000
          (clientIp (solve_request [''Nf3'', ''Nb5'']))
          (rateLimitMap (snd (post_api_puzzle_solve None pot_wallet [example_puzzle]
             1700000000000 (solve_request [''Nf3'', ''Nb5'']) (pot_world 50 Map.empty))))))
   \<and> status (fst (post_api_puzzle_solve None pot_wallet [] 1700000000000
        (solve_request [''Nf3'', ''Nb5'']) (pot_world 50 Map.empty))) = 400
   \<and> rateLimitMap (snd (post_api_puzzle_solve None pot_wallet [] 1700000000000
        (solve_request [''Nf3'', ''Nb5'']) (pot_world 50 Map.empty)))
       = [Some ''10.0.0.1'' \<mapsto> 1700000000000]"
proof -
  have h1: "get_field ''puzzleId'' (body (solve_request [''Nf3'', ''Nb5''])) = Some (JStr ''00sHx'')"
    and h2: "\<not> falsy (Some (JStr ''00sHx''))"
    and h3: "get_field ''moves'' (body (solve_request [''Nf3'', ''Nb5'']))
       = Some (JArr [JStr ''Nf3'', JStr ''Nb5''])"
    and h4: "allowed (fst (checkRateLimit None 1700000000000
        (clientIp (solve_request [''Nf3'', ''Nb5''])) (rateLimitMap (pot_world 50 Map.empty))))"
    and h5: "find (\<lambda>p. JStr (puzzle_id p) = JStr ''00sHx'') [example_puzzle] = Some example_puzzle"
    and h6: "\<not> isCorrect (JArr [JStr ''Nf3'', JStr ''Nb5'']) example_puzzle"
    and h7: "find (\<lambda>p. JStr (puzzle_id p) = JStr ''00sHx'') [] = None"
    and h8: "(1700000000000 :: int) \<noteq> 0"
    and h9: "(1700000002000 :: int) - 1700000000000 < rateLimitSeconds (config None) * 1000"
    and h10: "rateLimitSeconds (config None) * 1000 \<le> (1700000006000 :: int) - 1700000000000"
    by (simp_all add: example_defs checkRateLimit_def)
  have recorded:
    "(rateLimitMap (pot_world 50 Map.empty))(clientIp (solve_request [''Nf3'', ''Nb5''])
        \<mapsto> 1700000000000) = [Some ''10.0.0.1'' \<mapsto> 1700000000000]"
    by (simp add: example_defs)
  note known = attempt_recorded_before_validation
      [OF h1 h2 h3 h4, where M = pot_wallet and ps = "[example_puzzle]" and p = example_puzzle
        and t' = 1700000002000 and t'' = 1700000006000, THEN conjunct2]
  note unknown = attempt_recorded_before_validation
      [OF h1 h2 h3 h4, where M = pot_wallet and ps = "[]", THEN conjunct2]
  have c1: "status (fst (post_api_puzzle_solve None pot_wallet [example_puzzle] 1700000000000
        (solve_request [''Nf3'', ''Nb5'']) (pot_world 50 Map.empty))) = 400"
    using known h5 h6 by blast
  have c2: "rateLimitMap (snd (post_api_puzzle_solve None pot_wallet [example_puzzle]
        1700000000000 (solve_request [''Nf3'', ''Nb5'']) (pot_world 50 Map.empty)))
       = [Some ''10.0.0.1'' \<mapsto> 1700000000000]"
    by (rule trans [OF known [THEN conjunct1] recorded])
  have c3: "\<not> allowed (fst (checkRateLimit None 1700000002000
          (clientIp (solve_request [''Nf3'', ''Nb5'']))
          (rateLimitMap (snd (post_api_puzzle_solve None pot_wallet [example_puzzle]
             1700000000000 (solve_request [''Nf3'', ''Nb5'']) (pot_world 50 Map.empty))))))"
    using known h8 h9 by blast
  have c4: "allowed (fst (checkRateLimit None 1700000006000
          (clientIp (solve_request [''Nf3'', ''Nb5'']))
          (rateLimitMap (snd (post_api_puzzle_solve None pot_wallet [example_puzzle]
             1700000000000 (solve_request [''Nf3'', ''Nb5'']) (pot_world 50 Map.empty))))))"
    using known h10 by blast
  have c5: "status (fst (post_api_puzzle_solve None pot_wallet [] 1700000000000
        (solve_request [''Nf3'', ''Nb5'']) (pot_world 50 Map.empty))) = 400"
    using unknown h7 by blast
  have c6: "rateLimitMap (snd (post_api_puzzle_solve None pot_wallet [] 1700000000000
        (solve_request [''Nf3'', ''Nb5'']) (pot_world 50 Map.empty)))
       = [Some ''10.0.0.1'' \<mapsto> 1700000000000]"
    by (rule trans [OF unknown [THEN conjunct1] recorded])
  from h1 h2 h3 h4 h5 h6 h7 h8 h9 h10 c1 c2 c3 c4 c5 c6 show ?thesis
    by blast
qed

subsection \<open>Malformed requests\<close>

text \<open>
  C8. For every solve request whose body has no \<open>puzzleId\<close>, or no \<open>moves\<close>, or whose
  \<open>moves\<close> is not an array, the response is 400 and the state is left as it was: the
  rate-limit map has no new and no changed entry (and no wallet operation ran).
\<close>

theorem malformed_solve_request_400:
  assumes "get_field ''puzzleId'' (body req) = None \<or> get_field ''moves'' (body req) = None
           \<or> \<not> isArray (get_field ''moves'' (body req))"
  shows "status (fst (post_api_puzzle_solve env M ps t req s)) = 400
       \<and> snd (post_api_puzzle_solve env M ps t req s) = s"
  using assms by (auto simp add: post_api_puzzle_solve_def res_status_json_def)

theorem malformed_solve_request_400_witness:
  "\<not> isArray (get_field ''moves''
        (body \<lparr>body = JObj [(''puzzleId'', JStr ''00sHx''), (''moves'', JStr ''Nf3'')],
               ip = Some ''10.0.0.1'', remoteAddress = None\<rparr>))
   \<and> status (fst (post_api_puzzle_solve None pot_wallet [example_puzzle] 1700000000000
        \<lparr>body = JObj [(''puzzleId'', JStr ''00sHx''), (''moves'', JStr ''Nf3'')],
          ip = Some ''10.0.0.1'', remoteAddress = None\<rparr>
        (pot_world 50 Map.empty))) = 400
   \<and> rateLimitMap (snd (post_api_puzzle_solve None pot_wallet [example_puzzle] 1700000000000
        \<lparr>body = JObj [(''puzzleId'', JStr ''00sHx''), (''moves'', JStr ''Nf3'')],
          ip = Some ''10.0.0.1'', remoteAddress = None\<rparr>
        (pot_world 50 Map.empty))) = Map.empty"
proof -
  have h: "get_field ''puzzleId''
        (body \<lparr>body = JObj [(''puzzleId'', JStr ''00sHx''), (''moves'', JStr ''Nf3'')],
               ip = Some ''10.0.0.1'', remoteAddress = None\<rparr>) = None
      \<or> get_field ''moves''
        (body \<lparr>body = JObj [(''puzzleId'', JStr ''00sHx''), (''moves'', JStr ''Nf3'')],
               ip = Some ''10.0.0.1'', remoteAddress = None\<rparr>) = None
      \<or> \<not> isArray (get_field ''moves''
        (body \<lparr>body = JObj [(''puzzleId'', JStr ''00sHx''), (''moves'', JStr ''Nf3'')],
               ip = Some ''10.0.0.1'', remoteAddress = None\<rparr>))"
    by (simp add: get_field_def)
  show ?thesis
    using malformed_solve_request_400 [OF h, of None pot_wallet "[example_puzzle]"
        1700000000000 "pot_world 50 Map.empty"]
    by (simp add: get_field_def pot_world_def)
qed

subsection \<open>The balance endpoint\<close>

text \<open>
  C10. When the balance query returns, the field \<open>total\<close> of the response of the
  balance endpoint is the balance of the active mint, and 0 when the balances have no
  entry for that mint. It is not the sum over the mints: with 7 at the test mint, which
  is the active one, and 5 at the main mint, the total is 7.
\<close>

theorem balance_total_active_mint:
  "(getBalances M (wallet s) = Inr balances \<longrightarrow>
      get_field ''total'' (res_body (fst (get_api_balance env M s)))
        = Some (JNum (case map_of balances (activeMint env) of None \<Rightarrow> 0 | Some b \<Rightarrow> b)))
   \<and> get_field ''total'' (res_body (fst (get_api_balance None pot_wallet
        \<lparr>rateLimitMap = Map.empty,
          wallet = [(test_mint, 7), (''https://mint.minibits.cash/Bitcoin'', 5)],
          calls = []\<rparr>))) = Some (JNum 7)"
  by (auto simp add: get_api_balance_def call_defs res_json_def get_field_def balance_or_0_def
      pot_wallet_def test_mint_def activeMint_def config_def split: option.splits)

theorem balance_total_active_mint_witness:
  "getBalances pot_wallet [(''https://mint.minibits.cash/Bitcoin'', 5 :: int)]
     = Inr [(''https://mint.minibits.cash/Bitcoin'', 5)]
   \<and> map_of [(''https://mint.minibits.cash/Bitcoin'', 5 :: int)] (activeMint None) = None
   \<and> get_field ''total'' (res_body (fst (get_api_balance None pot_wallet
        \<lparr>rateLimitMap = Map.empty, wallet = [(''https://mint.minibits.cash/Bitcoin'', 5)],
          calls = []\<rparr>))) = Some (JNum 0)"
  using balance_total_active_mint [of pot_wallet
      "\<lparr>rateLimitMap = Map.empty, wallet = [(''https://mint.minibits.cash/Bitcoin'', 5)],
        calls = []\<rparr>"
      "[(''https://mint.minibits.cash/Bitcoin'', 5)]" None]
  by (simp add: pot_wallet_def activeMint_def config_def)

subsection \<open>Failures of the wallet\<close>

text \<open>
  C7, as amended. Whenever a wallet operation invoked by a request throws, the handler
  catches the error and answers with a JSON body that carries the message of the error:
  with status 500 and the body \<open>{error}\<close> on the balance, receive, donate and solve
  endpoints, and with status 200 and the body \<open>{paid: false, error}\<close> on the endpoint
  that checks a donation. Every handler returns a response in every case.
\<close>

theorem wallet_failure_responses:
  "(wallet_threw s (snd (get_api_balance env M s)) err \<longrightarrow>
      fst (get_api_balance env M s) = res_status_json 500 (error_body err))
   \<and> (wallet_threw s (snd (post_api_receive env M req s)) err \<longrightarrow>
      fst (post_api_receive env M req s) = res_status_json 500 (error_body err))
   \<and> (wallet_threw s (snd (post_api_donate env ToNumber M req s)) err \<longrightarrow>
      fst (post_api_donate env ToNumber M req s) = res_status_json 500 (error_body err))
   \<and> (wallet_threw s (snd (post_api_puzzle_solve env M ps t req s)) err \<longrightarrow>
      fst (post_api_puzzle_solve env M ps t req s) = res_status_json 500 (error_body err))
   \<and> (wallet_threw s (snd (get_api_donate_check env M quoteId s)) err \<longrightarrow>
      fst (get_api_donate_check env M quoteId s)
        = res_json (JObj [(''paid'', JBool False), (''error'', JStr err)]))"
  by (intro conjI impI)
     (simp_all only: balance_failure receive_failure donate_failure solve_failure
        donate_check_failure)

theorem wallet_failure_responses_witness:
  "wallet_threw offline_world (snd (get_api_balance None offline_wallet offline_world))
     ''fetch failed''
   \<and> wallet_threw offline_world
       (snd (post_api_receive None offline_wallet any_post_request offline_world)) ''fetch failed''
   \<and> wallet_threw offline_world
       (snd (post_api_donate None (\<lambda>v. None) offline_wallet any_post_request offline_world))
       ''fetch failed''
   \<and> wallet_threw offline_world
       (snd (post_api_puzzle_solve None offline_wallet [example_puzzle] 1700000000000
          any_post_request offline_world)) ''fetch failed''
   \<and> wallet_threw offline_world
       (snd (get_api_donate_check None offline_wallet ''q1'' offline_world)) ''fetch failed''
   \<and> status (fst (get_api_balance None offline_wallet offline_world)) = 500
   \<and> status (fst (post_api_receive None offline_wallet any_post_request offline_world)) = 500
   \<and> status (fst (post_api_donate None (\<lambda>v. None) offline_wallet any_post_request
        offline_world)) = 500
   \<and> status (fst (post_api_puzzle_solve None offline_wallet [example_puzzle] 1700000000000
        any_post_request offline_world)) = 500
   \<and> fst (get_api_donate_check None offline_wallet ''q1'' offline_world)
       = \<lparr>status = 200, res_body = JObj [(''paid'', JBool False), (''error'', JStr ''fetch failed'')]\<rparr>"
proof -
  have h1: "wallet_threw offline_world (snd (get_api_balance None offline_wallet offline_world))
     ''fetch failed''"
    and h2: "wallet_threw offline_world
       (snd (post_api_receive None offline_wallet any_post_request offline_world)) ''fetch failed''"
    and h3: "wallet_threw offline_world
       (snd (post_api_donate None (\<lambda>v. None) offline_wallet any_post_request offline_world))
       ''fetch failed''"
    and h5: "wallet_threw offline_world
       (snd (get_api_donate_check None offline_wallet ''q1'' offline_world)) ''fetch failed''"
    by (simp_all add: example_defs get_api_balance_def post_api_receive_def post_api_donate_def
        get_api_donate_check_def call_defs less_than_1_def)
  have h4: "wallet_threw offline_world
       (snd (post_api_puzzle_solve None offline_wallet [example_puzzle] 1700000000000
          any_post_request offline_world)) ''fetch failed''"
    by (simp add: example_defs post_api_puzzle_solve_def checkRateLimit_def validate_and_pay_def
        pay_reward_def call_defs)
  show ?thesis
    using h1 h2 h3 h4 h5
      wallet_failure_responses [of offline_world None offline_wallet "''fetch failed''"
        any_post_request "\<lambda>v. None" "[example_puzzle]" 1700000000000 "''q1''"]
    by (simp add: res_status_json_def res_json_def)
qed

text \<open>
  The claim as it is written fails on the endpoint that checks a donation: the
  redemption of an unpaid quote throws, and the response has status 200.
\<close>

theorem donation_check_failure_is_200:
  "wallet_threw (pot_world 50 Map.empty)
     (snd (get_api_donate_check None pot_wallet ''q1'' (pot_world 50 Map.empty))) ''Quote not paid''
   \<and> fst (get_api_donate_check None pot_wallet ''q1'' (pot_world 50 Map.empty))
       = \<lparr>status = 200,
          res_body = JObj [(''paid'', JBool False), (''error'', JStr ''Quote not paid'')]\<rparr>"
  by (simp add: example_defs get_api_donate_check_def call_defs)

end
